theory Spec2Isabelle
  imports Main "HOL-Library.Word" "HOL-Library.Sublist"
begin

section \<open>JavaScript strings and values\<close>

text \<open>
  A JavaScript string is a sequence of UTF-16 code units. The regular expressions of
  the naming helpers carry no \<open>u\<close> flag, so they work on code units, and every
  character they name lies in the Basic Multilingual Plane.
\<close>

type_synonym jschar = "16 word"
type_synonym jsstring = "jschar list"

text \<open>An ASCII literal of the source, as code units.\<close>

definition lit :: "string \<Rightarrow> jsstring" where
  "lit s = map of_char s"

text \<open>
  The helper \<open>clean\<close> takes \<open>unknown\<close> and asks \<open>typeof s !== 'string'\<close>; the values
  below are the ones that question tells apart.
\<close>

datatype jsvalue =
    JString jsstring
  | JUndefined
  | JNull
  | JBoolean bool
  | JNumber int

text \<open>
  ECMAScript's WhiteSpace and LineTerminator code points: what \<open>String.prototype.trim\<close>
  strips and what the class \<open>\s\<close> matches (TAB, LF, VT, FF, CR, SP, NBSP, U+1680,
  U+2000..U+200A, U+2028, U+2029, U+202F, U+205F, U+3000, U+FEFF).
\<close>

definition isWhiteSpace :: "jschar \<Rightarrow> bool" where
  "isWhiteSpace c \<longleftrightarrow>
     c = 0x09 \<or> c = 0x0A \<or> c = 0x0B \<or> c = 0x0C \<or> c = 0x0D \<or> c = 0x20 \<or> c = 0xA0 \<or>
     c = 0x1680 \<or> (0x2000 \<le> c \<and> c \<le> 0x200A) \<or> c = 0x2028 \<or> c = 0x2029 \<or>
     c = 0x202F \<or> c = 0x205F \<or> c = 0x3000 \<or> c = 0xFEFF"

text \<open>\<open>String.prototype.trim\<close>: white space goes from both ends, nothing from the middle.\<close>

definition trim :: "jsstring \<Rightarrow> jsstring" where
  "trim s = rev (dropWhile isWhiteSpace (rev (dropWhile isWhiteSpace s)))"

text \<open>\<open>Array.prototype.join\<close> on an array of strings.\<close>

fun join :: "jsstring \<Rightarrow> jsstring list \<Rightarrow> jsstring" where
  "join d [] = []"
| "join d [x] = x"
| "join d (x # y # ys) = x @ d @ join d (y # ys)"

section \<open>Excel-parity helpers\<close>

text \<open>\<open>CLEAN_RE\<close> is a character class: NBSP (U+00A0) and the zero-width units U+200B, U+200D, U+2060.\<close>

definition CLEAN_RE :: "jschar \<Rightarrow> bool" where
  "CLEAN_RE c \<longleftrightarrow> c = 0x00A0 \<or> c = 0x200B \<or> c = 0x200D \<or> c = 0x2060"

text \<open>
  \<^verbatim>\<open>if (typeof s !== 'string') return ''; return s.replace(CLEAN_RE, '').trim();\<close>
\<close>

fun clean :: "jsvalue \<Rightarrow> jsstring" where
  "clean (JString s) = trim (filter (\<lambda>c. \<not> CLEAN_RE c) s)"
| "clean _ = []"

text \<open>\<^verbatim>\<open>parts.map(clean).filter(p => p !== '').join(delimiter)\<close>\<close>

definition textJoin :: "jsstring \<Rightarrow> jsvalue list \<Rightarrow> jsstring" where
  "textJoin delimiter parts = join delimiter (filter (\<lambda>p. p \<noteq> []) (map clean parts))"

text \<open>
  \<^verbatim>\<open>s.replace(/,\s/g, '-')\<close>: the global replace scans from the left; where a comma is
  followed by a white-space unit the two units become one dash and the scan goes on
  behind them, elsewhere one unit is copied.
\<close>

fun substituteCommaSpaceToDash :: "jsstring \<Rightarrow> jsstring" where
  "substituteCommaSpaceToDash [] = []"
| "substituteCommaSpaceToDash [c] = [c]"
| "substituteCommaSpaceToDash (c # d # s) =
     (if c = 0x2C \<and> isWhiteSpace d then 0x2D # substituteCommaSpaceToDash s
      else c # substituteCommaSpaceToDash (d # s))"

section \<open>Ad set parity helpers\<close>

text \<open>\<^verbatim>\<open>s.replace(/ /g, '')\<close>\<close>

definition removeNormalSpaces :: "jsstring \<Rightarrow> jsstring" where
  "removeNormalSpaces s = filter (\<lambda>c. c \<noteq> 0x20) s"

text \<open>\<^verbatim>\<open>s.replace(/,/g, '-')\<close>\<close>

definition replaceCommasWithDash :: "jsstring \<Rightarrow> jsstring" where
  "replaceCommasWithDash s = map (\<lambda>c. if c = 0x2C then 0x2D else c) s"

definition cleanAdSetVideo :: "jsvalue \<Rightarrow> jsstring" where
  "cleanAdSetVideo s = removeNormalSpaces (clean s)"

definition cleanAdSetStatic :: "jsvalue \<Rightarrow> jsstring" where
  "cleanAdSetStatic s = removeNormalSpaces (replaceCommasWithDash (clean s))"

text \<open>\<^verbatim>\<open>parts.map(cleaner).filter(p => p !== '').join(delimiter)\<close>\<close>

definition textJoinWith :: "jsstring \<Rightarrow> jsvalue list \<Rightarrow> (jsvalue \<Rightarrow> jsstring) \<Rightarrow> jsstring" where
  "textJoinWith delimiter parts cleaner =
     join delimiter (filter (\<lambda>p. p \<noteq> []) (map cleaner parts))"

section \<open>The form record and the generated pair\<close>

text \<open>\<open>FormData\<close> of \<^verbatim>\<open>types.ts\<close>: every field a string, \<open>ncon\<close> a boolean.\<close>

record FormData =
  account :: jsstring
  productGeo :: jsstring
  trial :: jsstring
  conceptId :: jsstring
  assetId :: jsstring
  focus :: jsstring
  theme :: jsstring
  shortConceptDesc :: jsstring
  testVariable :: jsstring
  testDesc :: jsstring
  age :: jsstring
  ethnicity :: jsstring
  ratio :: jsstring
  style :: jsstring
  graphic :: jsstring
  sound :: jsstring
  productCode :: jsstring
  projectCode :: jsstring
  ncon :: bool
  variant :: jsstring
  adTextCode :: jsstring
  seq :: jsstring
  title :: jsstring
  intro :: jsstring
  seqDesc :: jsstring
  hookTheme :: jsstring
  hookDesc :: jsstring
  visualTheme :: jsstring
  visualObject :: jsstring
  carouselCode :: jsstring
  carouselDesc :: jsstring
  titleDesc :: jsstring
  visualIdentifier :: jsstring

record GeneratedOutputs =
  adSet :: jsstring
  adLevel :: jsstring

section \<open>The generators\<close>

text \<open>
  The local constants of \<open>generateVideoOutputs\<close> and \<open>generateStaticOutputs\<close> are
  definitions over the record, named as in the source; a condition on a string is
  JavaScript's truthiness, that is, the string is not empty. \<open>nconStr\<close> and
  \<open>projectCodeVariant\<close> are written the same way in both generators.
\<close>

definition nconStr :: "'a FormData_scheme \<Rightarrow> jsstring" where
  "nconStr data = (if ncon data then lit ''NCON'' else [])"

definition projectCodeVariant :: "'a FormData_scheme \<Rightarrow> jsstring" where
  "projectCodeVariant data =
     (if variant data \<noteq> []
      then clean (JString (projectCode data)) @ clean (JString (variant data))
      else clean (JString (projectCode data)))"

subsection \<open>Video\<close>

definition videoAdSet :: "'a FormData_scheme \<Rightarrow> jsstring" where
  "videoAdSet data = textJoinWith (lit ''_'') [
     JString (account data),
     JString (productGeo data),
     JString (trial data),
     JString (conceptId data),
     JString (assetId data),
     JString (focus data),
     JString (theme data),
     JString (shortConceptDesc data),
     JString (seq data),
     JString (title data),
     JString (intro data),
     JString (testVariable data),
     JString (testDesc data),
     JString (nconStr data),
     JString (age data),
     JString (ethnicity data),
     JString (ratio data),
     JString (style data),
     JString (graphic data),
     JString (productCode data),
     JString (projectCode data)
   ] cleanAdSetVideo"

definition videoSPart :: "'a FormData_scheme \<Rightarrow> jsstring" where
  "videoSPart data =
     (if clean (JString (seqDesc data)) \<noteq> [] then lit ''S-'' @ clean (JString (seqDesc data))
      else [])"

definition videoTPart :: "'a FormData_scheme \<Rightarrow> jsstring" where
  "videoTPart data = textJoin (lit ''-'') [
     JString (if clean (JString (hookTheme data)) \<noteq> []
              then lit ''T-'' @ clean (JString (hookTheme data)) else []),
     JString (hookDesc data)
   ]"

definition videoVPart :: "'a FormData_scheme \<Rightarrow> jsstring" where
  "videoVPart data = textJoin (lit ''-'') [
     JString (if clean (JString (visualTheme data)) \<noteq> []
              then lit ''V-'' @ clean (JString (visualTheme data)) else []),
     JString (visualObject data)
   ]"

definition videoAPart :: "'a FormData_scheme \<Rightarrow> jsstring" where
  "videoAPart data =
     (if clean (JString (sound data)) \<noteq> [] then lit ''A-'' @ clean (JString (sound data))
      else [])"

definition videoAdLevelRaw :: "'a FormData_scheme \<Rightarrow> jsstring" where
  "videoAdLevelRaw data = textJoin (lit ''_'') [
     JString (account data),
     JString (productGeo data),
     JString (trial data),
     JString (conceptId data),
     JString (assetId data),
     JString (focus data),
     JString (theme data),
     JString (shortConceptDesc data),
     JString (seq data),
     JString (title data),
     JString (intro data),
     JString (videoSPart data),
     JString (videoTPart data),
     JString (videoVPart data),
     JString (videoAPart data),
     JString (nconStr data),
     JString (age data),
     JString (ethnicity data),
     JString (ratio data),
     JString (style data),
     JString (graphic data),
     JString (productCode data),
     JString (projectCodeVariant data),
     JString (adTextCode data)
   ]"

definition generateVideoOutputs :: "'a FormData_scheme \<Rightarrow> GeneratedOutputs" where
  "generateVideoOutputs data =
     \<lparr> adSet = videoAdSet data,
       adLevel = substituteCommaSpaceToDash (videoAdLevelRaw data) \<rparr>"

subsection \<open>Static\<close>

definition staticAdSet :: "'a FormData_scheme \<Rightarrow> jsstring" where
  "staticAdSet data = textJoinWith (lit ''_'') [
     JString (account data),
     JString (productGeo data),
     JString (trial data),
     JString (conceptId data),
     JString (assetId data),
     JString (focus data),
     JString (theme data),
     JString (shortConceptDesc data),
     JString (carouselCode data),
     JString (title data),
     JString (intro data),
     JString (testVariable data),
     JString (testDesc data),
     JString [], JString [], JString [], JString [],
     JString (nconStr data),
     JString (age data),
     JString (ethnicity data),
     JString (ratio data),
     JString (style data),
     JString (graphic data),
     JString (productCode data),
     JString (projectCode data),
     JString []
   ] cleanAdSetStatic"

definition staticSPart :: "'a FormData_scheme \<Rightarrow> jsstring" where
  "staticSPart data =
     (if clean (JString (carouselDesc data)) \<noteq> []
      then lit ''S-'' @ clean (JString (carouselDesc data)) else [])"

definition staticTPart :: "'a FormData_scheme \<Rightarrow> jsstring" where
  "staticTPart data = textJoin (lit ''-'') [
     JString (if clean (JString (hookTheme data)) \<noteq> []
              then lit ''T-'' @ clean (JString (hookTheme data)) else []),
     JString (titleDesc data)
   ]"

definition staticVPart :: "'a FormData_scheme \<Rightarrow> jsstring" where
  "staticVPart data = textJoin (lit ''-'') [
     JString (if clean (JString (visualTheme data)) \<noteq> []
              then lit ''V-'' @ clean (JString (visualTheme data)) else []),
     JString (visualObject data)
   ]"

definition staticAPart :: "'a FormData_scheme \<Rightarrow> jsstring" where
  "staticAPart data =
     (if clean (JString (visualIdentifier data)) \<noteq> []
      then lit ''A-'' @ clean (JString (visualIdentifier data)) else [])"

definition staticAdLevelRaw :: "'a FormData_scheme \<Rightarrow> jsstring" where
  "staticAdLevelRaw data = textJoin (lit ''_'') [
     JString (account data),
     JString (productGeo data),
     JString (trial data),
     JString (conceptId data),
     JString (assetId data),
     JString (focus data),
     JString (theme data),
     JString (shortConceptDesc data),
     JString (carouselCode data),
     JString (title data),
     JString (intro data),
     JString (staticSPart data),
     JString (staticTPart data),
     JString (staticVPart data),
     JString (staticAPart data),
     JString (nconStr data),
     JString (age data),
     JString (ethnicity data),
     JString (ratio data),
     JString (style data),
     JString (graphic data),
     JString (productCode data),
     JString (projectCodeVariant data),
     JString (adTextCode data)
   ]"

definition generateStaticOutputs :: "'a FormData_scheme \<Rightarrow> GeneratedOutputs" where
  "generateStaticOutputs data =
     \<lparr> adSet = staticAdSet data,
       adLevel = substituteCommaSpaceToDash (staticAdLevelRaw data) \<rparr>"

text \<open>The record with every string empty and the flag off: the form before any entry.\<close>

definition emptyForm :: FormData where
  "emptyForm = \<lparr> account = [], productGeo = [], trial = [], conceptId = [], assetId = [],
     focus = [], theme = [], shortConceptDesc = [], testVariable = [], testDesc = [],
     age = [], ethnicity = [], ratio = [], style = [], graphic = [], sound = [],
     productCode = [], projectCode = [], ncon = False, variant = [], adTextCode = [],
     seq = [], title = [], intro = [], seqDesc = [], hookTheme = [], hookDesc = [],
     visualTheme = [], visualObject = [], carouselCode = [], carouselDesc = [],
     titleDesc = [], visualIdentifier = [] \<rparr>"

section \<open>Notions the properties are stated with\<close>

text \<open>A string that \<open>trim\<close> leaves alone: empty, or with no white space at either end.\<close>

definition trimmed :: "jsstring \<Rightarrow> bool" where
  "trimmed s \<longleftrightarrow> s = [] \<or> (\<not> isWhiteSpace (hd s) \<and> \<not> isWhiteSpace (last s))"

text \<open>
  The normalizer as the specification words it, to be compared with \<open>clean\<close>: the four
  units removed, then ASCII white space (TAB, LF, VT, FF, CR, SP) trimmed from both ends.
\<close>

definition isAsciiWhiteSpace :: "jschar \<Rightarrow> bool" where
  "isAsciiWhiteSpace c \<longleftrightarrow>
     c = 0x09 \<or> c = 0x0A \<or> c = 0x0B \<or> c = 0x0C \<or> c = 0x0D \<or> c = 0x20"

definition normalizeSpec :: "jsvalue \<Rightarrow> jsstring" where
  "normalizeSpec v =
     (case v of
        JString s \<Rightarrow>
          rev (dropWhile isAsciiWhiteSpace (rev (dropWhile isAsciiWhiteSpace
            (filter (\<lambda>c. c \<noteq> 0x00A0 \<and> c \<noteq> 0x200B \<and> c \<noteq> 0x200D \<and> c \<noteq> 0x2060) s))))
      | _ \<Rightarrow> [])"

text \<open>
  The final pass as the specification words it, to be compared with
  \<open>substituteCommaSpaceToDash\<close>: every occurrence of the two units comma, U+0020 becomes
  a dash, from the left.
\<close>

fun replaceCommaSpaceSpec :: "jsstring \<Rightarrow> jsstring" where
  "replaceCommaSpaceSpec [] = []"
| "replaceCommaSpaceSpec [c] = [c]"
| "replaceCommaSpaceSpec (c # d # s) =
     (if c = 0x2C \<and> d = 0x20 then 0x2D # replaceCommaSpaceSpec s
      else c # replaceCommaSpaceSpec (d # s))"

text \<open>
  The static ad-set join as the specification words it, to be compared with
  \<open>staticAdSet\<close>: the same list without the five empty literals (columns N to Q, and Z).
\<close>

definition staticAdSetCompact :: "'a FormData_scheme \<Rightarrow> jsstring" where
  "staticAdSetCompact data = textJoinWith (lit ''_'') [
     JString (account data),
     JString (productGeo data),
     JString (trial data),
     JString (conceptId data),
     JString (assetId data),
     JString (focus data),
     JString (theme data),
     JString (shortConceptDesc data),
     JString (carouselCode data),
     JString (title data),
     JString (intro data),
     JString (testVariable data),
     JString (testDesc data),
     JString (nconStr data),
     JString (age data),
     JString (ethnicity data),
     JString (ratio data),
     JString (style data),
     JString (graphic data),
     JString (productCode data),
     JString (projectCode data)
   ] cleanAdSetStatic"

section \<open>Trimming\<close>

lemma last_dropWhile_nonempty:
  "dropWhile P xs \<noteq> [] \<Longrightarrow> last (dropWhile P xs) = last xs"
  by (metis last_appendR takeWhile_dropWhile_id)

lemma trim_decomp:
  "s = takeWhile isWhiteSpace s @ trim s
         @ rev (takeWhile isWhiteSpace (rev (dropWhile isWhiteSpace s)))"
proof -
  let ?t = "dropWhile isWhiteSpace s"
  have "?t = rev (takeWhile isWhiteSpace (rev ?t) @ dropWhile isWhiteSpace (rev ?t))"
    by (simp only: takeWhile_dropWhile_id rev_rev_ident)
  then have "?t = rev (dropWhile isWhiteSpace (rev ?t)) @ rev (takeWhile isWhiteSpace (rev ?t))"
    by (simp only: rev_append)
  then have "?t = trim s @ rev (takeWhile isWhiteSpace (rev ?t))"
    by (simp only: trim_def)
  then show ?thesis
    by (metis takeWhile_dropWhile_id)
qed

lemma set_trim: "set (trim s) \<subseteq> set s"
proof -
  have "set (trim s) \<subseteq> set (dropWhile isWhiteSpace s)"
    unfolding trim_def by (metis set_rev set_dropWhileD subsetI)
  also have "\<dots> \<subseteq> set s"
    by (meson set_dropWhileD subsetI)
  finally show ?thesis .
qed

lemma trimmed_trim: "trimmed (trim s)"
proof (cases "trim s = []")
  case True
  then show ?thesis by (simp add: trimmed_def)
next
  case False
  let ?t = "dropWhile isWhiteSpace s"
  let ?u = "dropWhile isWhiteSpace (rev ?t)"
  from False have u: "?u \<noteq> []" by (simp add: trim_def)
  have t: "?t \<noteq> []"
  proof
    assume "?t = []"
    then have "?u = []" by (simp only: rev.simps(1) dropWhile.simps(1))
    with u show False by simp
  qed
  have "hd (trim s) = last ?u" using u by (simp add: trim_def hd_rev)
  also have "\<dots> = last (rev ?t)" using u by (rule last_dropWhile_nonempty)
  also have "\<dots> = hd ?t" using t by (simp add: last_rev)
  finally have h: "\<not> isWhiteSpace (hd (trim s))"
    using t hd_dropWhile [of isWhiteSpace s] by simp
  have "last (trim s) = hd ?u" using u by (simp add: trim_def last_rev)
  then have l: "\<not> isWhiteSpace (last (trim s))"
    using u hd_dropWhile [of isWhiteSpace "rev ?t"] by simp
  from h l show ?thesis by (simp add: trimmed_def)
qed

lemma trim_trimmed: "trimmed s \<Longrightarrow> trim s = s"
proof (cases "s = []")
  case True
  then show ?thesis by (simp add: trim_def)
next
  case False
  assume "trimmed s"
  with False have h: "\<not> isWhiteSpace (hd s)" and l: "\<not> isWhiteSpace (last s)"
    by (simp_all add: trimmed_def)
  from False h have d: "dropWhile isWhiteSpace s = s"
    by (cases s) simp_all
  from False l have "dropWhile isWhiteSpace (rev s) = rev s"
    by (cases "rev s") (simp_all add: last_rev [symmetric] hd_rev)
  with d show ?thesis by (simp add: trim_def)
qed

lemma trim_all_white:
  assumes "\<forall>c\<in>set s. isWhiteSpace c"
  shows "trim s = []"
proof -
  from assms have "dropWhile isWhiteSpace s = []" by (simp only: dropWhile_eq_Nil_conv)
  then show ?thesis by (simp only: trim_def rev.simps(1) dropWhile.simps(1))
qed

lemma trimmed_filter:
  assumes "trimmed s" and "\<And>c. \<not> isWhiteSpace c \<Longrightarrow> P c"
  shows "trimmed (filter P s)"
proof (cases "s = []")
  case True
  then show ?thesis by (simp add: trimmed_def)
next
  case False
  with assms have h: "P (hd s)" "\<not> isWhiteSpace (hd s)" and l: "P (last s)" "\<not> isWhiteSpace (last s)"
    by (simp_all add: trimmed_def)
  from False obtain a t where s1: "s = a # t" by (cases s) auto
  from False obtain u b where s2: "s = u @ [b]" by (cases s rule: rev_cases) auto
  from s1 h have "hd (filter P s) = hd s" by simp
  moreover from s2 l have "last (filter P s) = last s" by simp
  ultimately show ?thesis using h l by (simp add: trimmed_def)
qed

lemma trimmed_map:
  assumes "trimmed s" and "\<And>c. \<not> isWhiteSpace c \<Longrightarrow> \<not> isWhiteSpace (f c)"
  shows "trimmed (map f s)"
  using assms by (cases "s = []") (simp_all add: trimmed_def hd_map last_map)

section \<open>The normalizers\<close>

lemma trimmed_clean: "trimmed (clean v)"
  by (cases v) (simp_all add: trimmed_trim, simp_all add: trimmed_def)

lemma clean_no_CLEAN_RE: "c \<in> set (clean v) \<Longrightarrow> \<not> CLEAN_RE c"
proof (cases v)
  case (JString s)
  assume "c \<in> set (clean v)"
  with JString have "c \<in> set (trim (filter (\<lambda>c. \<not> CLEAN_RE c) s))"
    by simp
  then have "c \<in> set (filter (\<lambda>c. \<not> CLEAN_RE c) s)"
    using set_trim by blast
  then show ?thesis by simp
qed simp_all

lemma clean_fixed:
  assumes "trimmed s" and "\<forall>c\<in>set s. \<not> CLEAN_RE c"
  shows "clean (JString s) = s"
proof -
  from assms(2) have "filter (\<lambda>c. \<not> CLEAN_RE c) s = s"
    by (simp add: filter_id_conv)
  with assms(1) show ?thesis by (simp add: trim_trimmed)
qed

lemma clean_clean: "clean (JString (clean v)) = clean v"
  by (rule clean_fixed) (auto simp: trimmed_clean dest: clean_no_CLEAN_RE)

lemma cleanAdSetVideo_fixed: "clean (JString (cleanAdSetVideo v)) = cleanAdSetVideo v"
proof (rule clean_fixed)
  show "trimmed (cleanAdSetVideo v)"
    unfolding cleanAdSetVideo_def removeNormalSpaces_def
    by (rule trimmed_filter [OF trimmed_clean]) (auto simp: isWhiteSpace_def)
  show "\<forall>c\<in>set (cleanAdSetVideo v). \<not> CLEAN_RE c"
    by (auto simp: cleanAdSetVideo_def removeNormalSpaces_def dest: clean_no_CLEAN_RE)
qed

lemma cleanAdSetVideo_idem: "cleanAdSetVideo (JString (cleanAdSetVideo v)) = cleanAdSetVideo v"
proof -
  have "removeNormalSpaces (cleanAdSetVideo v) = cleanAdSetVideo v"
    by (simp add: cleanAdSetVideo_def removeNormalSpaces_def)
  then show ?thesis
    using cleanAdSetVideo_fixed [of v] by (simp add: cleanAdSetVideo_def [of "JString _"])
qed

lemma cleanAdSetStatic_fixed: "clean (JString (cleanAdSetStatic v)) = cleanAdSetStatic v"
proof (rule clean_fixed)
  have "trimmed (replaceCommasWithDash (clean v))"
    unfolding replaceCommasWithDash_def
    by (rule trimmed_map [OF trimmed_clean]) (simp add: isWhiteSpace_def)
  then show "trimmed (cleanAdSetStatic v)"
    unfolding cleanAdSetStatic_def removeNormalSpaces_def
    by (rule trimmed_filter) (auto simp: isWhiteSpace_def)
  show "\<forall>c\<in>set (cleanAdSetStatic v). \<not> CLEAN_RE c"
    by (auto simp: cleanAdSetStatic_def removeNormalSpaces_def replaceCommasWithDash_def
          CLEAN_RE_def dest: clean_no_CLEAN_RE split: if_splits)
qed

lemma cleanAdSetStatic_idem: "cleanAdSetStatic (JString (cleanAdSetStatic v)) = cleanAdSetStatic v"
proof -
  have c: "\<forall>c\<in>set (cleanAdSetStatic v). c \<noteq> 0x2C"
    by (auto simp: cleanAdSetStatic_def removeNormalSpaces_def replaceCommasWithDash_def
          split: if_splits)
  then have "replaceCommasWithDash (cleanAdSetStatic v) = cleanAdSetStatic v"
    unfolding replaceCommasWithDash_def by (simp add: map_idI)
  moreover have "removeNormalSpaces (cleanAdSetStatic v) = cleanAdSetStatic v"
    by (simp add: cleanAdSetStatic_def removeNormalSpaces_def)
  ultimately show ?thesis
    using cleanAdSetStatic_fixed [of v] by (simp add: cleanAdSetStatic_def [of "JString _"])
qed

text \<open>
  C7. Each normalizer is idempotent: \<open>clean\<close>, \<open>cleanAdSetVideo\<close> and
  \<open>cleanAdSetStatic\<close>, applied to their own output, return it unchanged. The input
  is any value; a string is the case \<open>JString x\<close>.
\<close>

theorem normalizers_idempotent:
  "clean (JString (clean v)) = clean v \<and>
   cleanAdSetVideo (JString (cleanAdSetVideo v)) = cleanAdSetVideo v \<and>
   cleanAdSetStatic (JString (cleanAdSetStatic v)) = cleanAdSetStatic v"
  by (simp only: clean_clean cleanAdSetVideo_idem cleanAdSetStatic_idem)

text \<open>The three normalizers at the string \<open>" a, b  "\<close> and at their outputs.\<close>

theorem normalizers_idempotent_witness:
  "clean (JString (lit '' a, b  '')) = lit ''a, b'' \<and>
   clean (JString (lit ''a, b'')) = lit ''a, b'' \<and>
   cleanAdSetVideo (JString (lit '' a, b  '')) = lit ''a,b'' \<and>
   cleanAdSetVideo (JString (lit ''a,b'')) = lit ''a,b'' \<and>
   cleanAdSetStatic (JString (lit '' a, b  '')) = lit ''a-b'' \<and>
   cleanAdSetStatic (JString (lit ''a-b'')) = lit ''a-b''"
proof -
  have 1: "clean (JString (lit '' a, b  '')) = lit ''a, b''"
    by (simp add: lit_def trim_def isWhiteSpace_def CLEAN_RE_def)
  have 2: "cleanAdSetVideo (JString (lit '' a, b  '')) = lit ''a,b''"
    by (simp add: cleanAdSetVideo_def removeNormalSpaces_def lit_def trim_def isWhiteSpace_def CLEAN_RE_def)
  have 3: "cleanAdSetStatic (JString (lit '' a, b  '')) = lit ''a-b''"
    by (simp add: cleanAdSetStatic_def removeNormalSpaces_def replaceCommasWithDash_def
          lit_def trim_def isWhiteSpace_def CLEAN_RE_def)
  from normalizers_idempotent [of "JString (lit '' a, b  '')"] 1 2 3
  show ?thesis by simp
qed

section \<open>The join utility\<close>

lemma filter_blank_nil:
  assumes "\<forall>p\<in>set blanks. cleaner p = []"
  shows "filter (\<lambda>p. p \<noteq> []) (map cleaner blanks) = ([] :: jsstring list)"
  using assms by (induction blanks) simp_all

lemma join_length:
  "length (join d xs) = sum_list (map length xs) + (length xs - 1) * length d"
  by (induction d xs rule: join.induct) simp_all

lemma clean_all_white:
  assumes "\<forall>c\<in>set s. isWhiteSpace c"
  shows "clean (JString s) = []"
proof -
  from assms have "\<forall>c\<in>set (filter (\<lambda>c. \<not> CLEAN_RE c) s). isWhiteSpace c"
    by simp
  then show ?thesis
    by (simp only: clean.simps trim_all_white)
qed

text \<open>
  C5. The skip-blank law of the join utility, for every delimiter \<open>d\<close> and every
  normalizer \<open>cleaner\<close> (the default one is \<open>textJoin\<close>, which is \<open>textJoinWith\<close> at
  \<open>clean\<close>). When every value of \<open>blanks\<close> normalizes to the empty string: the list
  joins to the empty string; one value \<open>v\<close> with a non-empty normalization inserted at
  any position \<open>i\<close> joins to exactly that normalization; and inside any list the blank
  values can be deleted without changing the output, whether they stand first
  (\<open>xs = []\<close>), last (\<open>ys = []\<close>) or between other values, so they contribute no
  delimiter. The output holds one delimiter less than it has surviving values.
  A string of white space only is blank for each of the three normalizers.
\<close>

theorem join_skip_blank:
  assumes "\<forall>p\<in>set blanks. cleaner p = []"
  shows "textJoinWith d blanks cleaner = [] \<and>
    (cleaner v \<noteq> [] \<longrightarrow>
       textJoinWith d (take i blanks @ v # drop i blanks) cleaner = cleaner v) \<and>
    textJoinWith d (xs @ blanks @ ys) cleaner = textJoinWith d (xs @ ys) cleaner \<and>
    length (textJoinWith d parts cleaner) =
       sum_list (map length (filter (\<lambda>p. p \<noteq> []) (map cleaner parts)))
       + (length (filter (\<lambda>p. p \<noteq> []) (map cleaner parts)) - 1) * length d \<and>
    textJoin d parts = textJoinWith d parts clean \<and>
    ((\<forall>c\<in>set s. isWhiteSpace c) \<longrightarrow>
       clean (JString s) = [] \<and> cleanAdSetVideo (JString s) = [] \<and>
       cleanAdSetStatic (JString s) = [])"
proof -
  note nil = filter_blank_nil [OF assms]
  have a: "textJoinWith d blanks cleaner = []"
    by (simp add: textJoinWith_def nil)
  have "\<forall>p\<in>set (take i blanks). cleaner p = []" and "\<forall>p\<in>set (drop i blanks). cleaner p = []"
    using assms by (auto dest: in_set_takeD in_set_dropD)
  then have b: "cleaner v \<noteq> [] \<longrightarrow>
       textJoinWith d (take i blanks @ v # drop i blanks) cleaner = cleaner v"
    by (simp add: textJoinWith_def filter_blank_nil)
  have c: "textJoinWith d (xs @ blanks @ ys) cleaner = textJoinWith d (xs @ ys) cleaner"
    by (simp add: textJoinWith_def nil)
  have e: "length (textJoinWith d parts cleaner) =
       sum_list (map length (filter (\<lambda>p. p \<noteq> []) (map cleaner parts)))
       + (length (filter (\<lambda>p. p \<noteq> []) (map cleaner parts)) - 1) * length d"
    by (simp only: textJoinWith_def join_length)
  have f: "textJoin d parts = textJoinWith d parts clean"
    by (simp add: textJoin_def textJoinWith_def)
  have g: "(\<forall>c\<in>set s. isWhiteSpace c) \<longrightarrow>
       clean (JString s) = [] \<and> cleanAdSetVideo (JString s) = [] \<and>
       cleanAdSetStatic (JString s) = []"
    by (simp add: clean_all_white cleanAdSetVideo_def cleanAdSetStatic_def
          removeNormalSpaces_def replaceCommasWithDash_def del: clean.simps(1))
  from a b c e f g show ?thesis by blast
qed

text \<open>
  The law at the blanks \<open>"  "\<close>, \<open>undefined\<close> and \<open>""\<close> under \<open>clean\<close> and the
  delimiter \<open>"_"\<close>, with \<open>"US"\<close> inserted at position 1, and with the blanks between
  \<open>"a"\<close> and \<open>"b"\<close>.
\<close>

theorem join_skip_blank_witness:
  "(clean (JString (lit ''  '')) = [] \<and> clean JUndefined = [] \<and> clean (JString []) = []) \<and>
   textJoinWith (lit ''_'') [JString (lit ''  ''), JUndefined, JString []] clean = [] \<and>
   textJoinWith (lit ''_'') [JString (lit ''  ''), JString (lit ''US''), JUndefined, JString []]
     clean = lit ''US'' \<and>
   textJoinWith (lit ''_'')
     [JString (lit ''a''), JString (lit ''  ''), JUndefined, JString [], JString (lit ''b'')]
     clean = lit ''a_b'' \<and>
   textJoin (lit ''_'') [JString (lit ''a''), JString (lit ''  ''), JString (lit ''b'')]
     = lit ''a_b''"
proof -
  have ev: "clean (JString (lit ''  '')) = []" "clean (JString (lit ''US'')) = lit ''US''"
    "clean (JString (lit ''a'')) = lit ''a''" "clean (JString (lit ''b'')) = lit ''b''"
    "clean (JString []) = []"
    by (simp_all add: lit_def trim_def isWhiteSpace_def CLEAN_RE_def)
  have h: "\<forall>p\<in>set [JString (lit ''  ''), JUndefined, JString []]. clean p = []"
    using ev by simp
  have us: "lit ''US'' \<noteq> []"
    by (simp add: lit_def)
  from join_skip_blank [OF h, of "lit ''_''" "JString (lit ''US'')" 1
      "[JString (lit ''a'')]" "[JString (lit ''b'')]"
      "[JString (lit ''a''), JString (lit ''  ''), JString (lit ''b'')]" "lit ''  ''"]
  have "textJoinWith (lit ''_'') [JString (lit ''  ''), JUndefined, JString []] clean = []"
    and "textJoinWith (lit ''_'')
      [JString (lit ''  ''), JString (lit ''US''), JUndefined, JString []] clean = lit ''US''"
    and "textJoinWith (lit ''_'')
      [JString (lit ''a''), JString (lit ''  ''), JUndefined, JString [], JString (lit ''b'')]
      clean = textJoinWith (lit ''_'') [JString (lit ''a''), JString (lit ''b'')] clean"
    using ev us by (simp_all del: clean.simps(1))
  moreover have "textJoinWith (lit ''_'') [JString (lit ''a''), JString (lit ''b'')] clean
      = lit ''a_b''"
    using ev by (simp add: textJoinWith_def del: clean.simps(1)) (simp add: lit_def)
  moreover have "textJoin (lit ''_'') [JString (lit ''a''), JString (lit ''  ''), JString (lit ''b'')]
     = lit ''a_b''"
    using ev by (simp add: textJoin_def del: clean.simps(1)) (simp add: lit_def)
  ultimately show ?thesis using ev by (simp del: clean.simps(1))
qed

section \<open>The ad-set strings\<close>

text \<open>The surviving values of a join, one value at a time.\<close>

lemma survivors_Nil: "filter (\<lambda>p. p \<noteq> []) (map c []) = []"
  by simp

lemma survivors_blank:
  "c x = [] \<Longrightarrow>
   filter (\<lambda>p. p \<noteq> []) (map c (x # xs)) = filter (\<lambda>p. p \<noteq> []) (map c xs)"
  by simp

lemma survivors_keep:
  "c x \<noteq> [] \<Longrightarrow>
   filter (\<lambda>p. p \<noteq> []) (map c (x # xs)) = c x # filter (\<lambda>p. p \<noteq> []) (map c xs)"
  by simp

lemma survivors_Cons:
  "filter (\<lambda>p. p \<noteq> []) (map c (x # xs))
     = (if c x = [] then [] else [c x]) @ filter (\<lambda>p. p \<noteq> []) (map c xs)"
  by simp

lemma lit_Cons_nonempty: "lit (a # s) \<noteq> []"
  by (simp add: lit_def)

lemma cleanAdSetStatic_empty: "cleanAdSetStatic (JString []) = []"
  by (simp add: cleanAdSetStatic_def removeNormalSpaces_def replaceCommasWithDash_def trim_def)

lemma cleanAdSetVideo_empty: "cleanAdSetVideo (JString []) = []"
  by (simp add: cleanAdSetVideo_def removeNormalSpaces_def trim_def)

text \<open>
  C9. The static ad-set string, built from the 26-slot list with its empty literals
  (columns N to Q, and Z), is the string the same join builds from the list without
  them: the placeholders change nothing.
\<close>

theorem static_placeholders_noop:
  "adSet (generateStaticOutputs data) = staticAdSetCompact data"
  by (simp only: generateStaticOutputs_def staticAdSet_def staticAdSetCompact_def
        textJoinWith_def survivors_Cons cleanAdSetStatic_empty GeneratedOutputs.simps
        simp_thms if_True append_Nil)

text \<open>Both lists at a form with account \<open>"a, b"\<close> and project code \<open>"p"\<close>.\<close>

theorem static_placeholders_noop_witness:
  "adSet (generateStaticOutputs (emptyForm\<lparr>account := lit ''a, b'', projectCode := lit ''p''\<rparr>))
     = lit ''a-b_p'' \<and>
   staticAdSetCompact (emptyForm\<lparr>account := lit ''a, b'', projectCode := lit ''p''\<rparr>)
     = lit ''a-b_p''"
proof -
  let ?d = "emptyForm\<lparr>account := lit ''a, b'', projectCode := lit ''p''\<rparr>"
  have e: "cleanAdSetStatic (JString (lit ''a, b'')) = lit ''a-b''"
    "cleanAdSetStatic (JString (lit ''p'')) = lit ''p''"
    by (simp_all add: cleanAdSetStatic_def removeNormalSpaces_def replaceCommasWithDash_def
          trim_def lit_def isWhiteSpace_def CLEAN_RE_def)
  have j: "join (lit ''_'') [lit ''a-b'', lit ''p''] = lit ''a-b_p''"
    by (simp add: lit_def)
  have "staticAdSetCompact ?d =
     textJoinWith (lit ''_'') [JString (lit ''a, b''), JString [], JString [],
       JString [], JString [], JString [], JString [], JString [], JString [], JString [],
       JString [], JString [], JString [], JString [], JString [], JString [], JString [],
       JString [], JString [], JString [], JString (lit ''p'')] cleanAdSetStatic"
    by (simp add: staticAdSetCompact_def nconStr_def emptyForm_def)
  also have "\<dots> = lit ''a-b_p''"
    unfolding textJoinWith_def
    by (simp only: e cleanAdSetStatic_empty survivors_blank survivors_keep survivors_Nil
          lit_Cons_nonempty not_False_eq_True j)
  finally have "staticAdSetCompact ?d = lit ''a-b_p''" .
  with static_placeholders_noop [of ?d]
  show ?thesis by simp
qed

text \<open>
  C2. The video ad-set string is the \<open>"_"\<close> join of the non-empty normalizations, under
  the video ad-set normalizer (\<open>clean\<close>, then every U+0020 removed), of 21 fields in
  this order: account, productGeo, trial, conceptId, assetId, focus, theme,
  shortConceptDesc, seq, title, intro, testVariable, testDesc, the ncon token, age,
  ethnicity, ratio, style, graphic, productCode, projectCode. The fields sound, variant
  and adTextCode have no part in it. With account \<open>"US"\<close>, productGeo \<open>"USA"\<close>, trial
  \<open>"T1"\<close>, the other eighteen empty and ncon false, the string is \<open>"US_USA_T1"\<close>.
\<close>

theorem video_adSet_fields:
  "adSet (generateVideoOutputs data) =
     join (lit ''_'') (filter (\<lambda>p. p \<noteq> [])
       (map (\<lambda>f. removeNormalSpaces (clean (JString f)))
         [account data, productGeo data, trial data, conceptId data, assetId data,
          focus data, theme data, shortConceptDesc data, seq data, title data, intro data,
          testVariable data, testDesc data, (if ncon data then lit ''NCON'' else []),
          age data, ethnicity data, ratio data, style data, graphic data,
          productCode data, projectCode data])) \<and>
   adSet (generateVideoOutputs (data\<lparr>sound := s, variant := v, adTextCode := a\<rparr>))
     = adSet (generateVideoOutputs data) \<and>
   adSet (generateVideoOutputs (data\<lparr>account := lit ''US'', productGeo := lit ''USA'',
       trial := lit ''T1'', conceptId := [], assetId := [], focus := [], theme := [],
       shortConceptDesc := [], seq := [], title := [], intro := [], testVariable := [],
       testDesc := [], ncon := False, age := [], ethnicity := [], ratio := [], style := [],
       graphic := [], productCode := [], projectCode := []\<rparr>))
     = lit ''US_USA_T1''"
proof -
  have 1: "adSet (generateVideoOutputs data) =
     join (lit ''_'') (filter (\<lambda>p. p \<noteq> [])
       (map (\<lambda>f. removeNormalSpaces (clean (JString f)))
         [account data, productGeo data, trial data, conceptId data, assetId data,
          focus data, theme data, shortConceptDesc data, seq data, title data, intro data,
          testVariable data, testDesc data, (if ncon data then lit ''NCON'' else []),
          age data, ethnicity data, ratio data, style data, graphic data,
          productCode data, projectCode data]))"
    by (simp only: generateVideoOutputs_def videoAdSet_def textJoinWith_def
          cleanAdSetVideo_def nconStr_def list.map GeneratedOutputs.simps)
  have 2: "adSet (generateVideoOutputs (data\<lparr>sound := s, variant := v, adTextCode := a\<rparr>))
     = adSet (generateVideoOutputs data)"
    by (simp add: generateVideoOutputs_def videoAdSet_def nconStr_def)
  have e: "cleanAdSetVideo (JString (lit ''US'')) = lit ''US''"
    "cleanAdSetVideo (JString (lit ''USA'')) = lit ''USA''"
    "cleanAdSetVideo (JString (lit ''T1'')) = lit ''T1''"
    by (simp_all add: cleanAdSetVideo_def removeNormalSpaces_def trim_def lit_def
          isWhiteSpace_def CLEAN_RE_def)
  have j: "join (lit ''_'') [lit ''US'', lit ''USA'', lit ''T1''] = lit ''US_USA_T1''"
    by (simp add: lit_def)
  have "videoAdSet (data\<lparr>account := lit ''US'', productGeo := lit ''USA'',
       trial := lit ''T1'', conceptId := [], assetId := [], focus := [], theme := [],
       shortConceptDesc := [], seq := [], title := [], intro := [], testVariable := [],
       testDesc := [], ncon := False, age := [], ethnicity := [], ratio := [], style := [],
       graphic := [], productCode := [], projectCode := []\<rparr>) =
     textJoinWith (lit ''_'') [JString (lit ''US''), JString (lit ''USA''), JString (lit ''T1''),
       JString [], JString [], JString [], JString [], JString [], JString [], JString [],
       JString [], JString [], JString [], JString [], JString [], JString [], JString [],
       JString [], JString [], JString [], JString []] cleanAdSetVideo"
    by (simp add: videoAdSet_def nconStr_def)
  also have "\<dots> = lit ''US_USA_T1''"
    unfolding textJoinWith_def
    by (simp only: e cleanAdSetVideo_empty survivors_blank survivors_keep survivors_Nil
          lit_Cons_nonempty not_False_eq_True j)
  finally have 3: "adSet (generateVideoOutputs (data\<lparr>account := lit ''US'',
       productGeo := lit ''USA'',
       trial := lit ''T1'', conceptId := [], assetId := [], focus := [], theme := [],
       shortConceptDesc := [], seq := [], title := [], intro := [], testVariable := [],
       testDesc := [], ncon := False, age := [], ethnicity := [], ratio := [], style := [],
       graphic := [], productCode := [], projectCode := []\<rparr>))
     = lit ''US_USA_T1''"
    by (simp add: generateVideoOutputs_def)
  from 1 2 3 show ?thesis by (simp only: simp_thms)
qed

text \<open>
  The list at a form with account \<open>" U S "\<close> and the ncon flag set, and with sound,
  variant and adTextCode filled in.
\<close>

theorem video_adSet_fields_witness:
  "adSet (generateVideoOutputs (emptyForm\<lparr>account := lit '' U S '', ncon := True\<rparr>))
     = lit ''US_NCON'' \<and>
   adSet (generateVideoOutputs (emptyForm\<lparr>account := lit '' U S '', ncon := True,
       sound := lit ''s'', variant := lit ''a'', adTextCode := lit ''h2p2''\<rparr>))
     = lit ''US_NCON''"
proof -
  let ?d = "emptyForm\<lparr>account := lit '' U S '', ncon := True\<rparr>"
  note t = video_adSet_fields [where data = ?d and s = "lit ''s''" and v = "lit ''a''"
      and a = "lit ''h2p2''"]
  have e: "removeNormalSpaces (clean (JString [])) = []"
    "removeNormalSpaces (clean (JString (lit '' U S ''))) = lit ''US''"
    "removeNormalSpaces (clean (JString (lit ''NCON''))) = lit ''NCON''"
    by (simp_all add: removeNormalSpaces_def trim_def lit_def isWhiteSpace_def CLEAN_RE_def)
  have j: "join (lit ''_'') [lit ''US'', lit ''NCON''] = lit ''US_NCON''"
    by (simp add: lit_def)
  have l: "[account ?d, productGeo ?d, trial ?d, conceptId ?d, assetId ?d,
          focus ?d, theme ?d, shortConceptDesc ?d, seq ?d, title ?d, intro ?d,
          testVariable ?d, testDesc ?d, (if ncon ?d then lit ''NCON'' else []),
          age ?d, ethnicity ?d, ratio ?d, style ?d, graphic ?d,
          productCode ?d, projectCode ?d] =
        [lit '' U S '', [], [], [], [], [], [], [], [], [], [], [], [], lit ''NCON'',
         [], [], [], [], [], [], []]"
    by (simp add: emptyForm_def)
  from t [THEN conjunct1] have a: "adSet (generateVideoOutputs ?d) = lit ''US_NCON''"
    by (simp only: l e survivors_blank survivors_keep survivors_Nil
          lit_Cons_nonempty not_False_eq_True j)
  from t [THEN conjunct2, THEN conjunct1] a show ?thesis
    by (simp only: simp_thms)
qed

section \<open>The ad-level segments\<close>

lemma clean_empty: "clean (JString []) = []"
  by (simp add: trim_def)

lemma clean_tagged:
  assumes "clean v \<noteq> []" and "\<not> isWhiteSpace a" and "\<not> CLEAN_RE a" and "\<not> CLEAN_RE b"
  shows "clean (JString (a # b # clean v)) = a # b # clean v"
proof (rule clean_fixed)
  from assms(1) trimmed_clean [of v] have "\<not> isWhiteSpace (last (clean v))"
    by (simp add: trimmed_def)
  with assms(1,2) show "trimmed (a # b # clean v)"
    by (simp add: trimmed_def)
  from assms(3,4) show "\<forall>c\<in>set (a # b # clean v). \<not> CLEAN_RE c"
    by (auto dest: clean_no_CLEAN_RE)
qed

lemma clean_lit_tag:
  assumes "clean v \<noteq> []"
  shows "clean (JString (lit ''T-'' @ clean v)) = lit ''T-'' @ clean v"
    and "clean (JString (lit ''V-'' @ clean v)) = lit ''V-'' @ clean v"
  using clean_tagged [OF assms, of "0x54" "0x2D"] clean_tagged [OF assms, of "0x56" "0x2D"]
  by (simp_all add: lit_def isWhiteSpace_def CLEAN_RE_def del: clean.simps)

text \<open>A tagged theme joined by a dash with a secondary field, under \<open>textJoin\<close>.\<close>

lemma tagged_pair:
  assumes "tag = lit ''T-'' \<or> tag = lit ''V-''"
  shows "textJoin (lit ''-'')
      [JString (if clean (JString t) \<noteq> [] then tag @ clean (JString t) else []), JString h]
    = (if clean (JString t) = [] then clean (JString h)
       else if clean (JString h) = [] then tag @ clean (JString t)
       else tag @ clean (JString t) @ lit ''-'' @ clean (JString h))"
proof (cases "clean (JString t) = []")
  case True
  then show ?thesis
    by (simp add: textJoin_def clean_empty del: clean.simps)
next
  case False
  then have c: "clean (JString (tag @ clean (JString t))) = tag @ clean (JString t)"
    using assms clean_lit_tag [of "JString t"] by blast
  have n: "tag @ clean (JString t) \<noteq> []"
    using False by simp
  show ?thesis
    using False n by (simp add: textJoin_def c del: clean.simps)
qed

text \<open>
  C3. The T-segment of the video ad level is the skip-blank dash join of \<open>"T-"\<close> before
  the normalized hookTheme (there only when that is not empty) and the normalized
  hookDesc: the hookDesc alone when the theme is blank (so empty when both are blank),
  the tagged theme alone when the hookDesc is blank, both with a dash between otherwise.
  The V-segment is the same over visualTheme and visualObject. The A-segment is \<open>"A-"\<close>
  before the normalized sound when that is not empty, else empty. With hookTheme
  \<open>"Fear"\<close>, hookDesc \<open>"Urgency"\<close>, visualTheme \<open>""\<close>, visualObject \<open>"ProductShot"\<close> and
  sound \<open>""\<close> the segments are \<open>"T-Fear-Urgency"\<close>, \<open>"ProductShot"\<close> and \<open>""\<close>.
\<close>

theorem video_segments:
  "videoTPart data =
     (if clean (JString (hookTheme data)) = [] then clean (JString (hookDesc data))
      else if clean (JString (hookDesc data)) = []
        then lit ''T-'' @ clean (JString (hookTheme data))
      else lit ''T-'' @ clean (JString (hookTheme data)) @ lit ''-''
             @ clean (JString (hookDesc data))) \<and>
   videoVPart data =
     (if clean (JString (visualTheme data)) = [] then clean (JString (visualObject data))
      else if clean (JString (visualObject data)) = []
        then lit ''V-'' @ clean (JString (visualTheme data))
      else lit ''V-'' @ clean (JString (visualTheme data)) @ lit ''-''
             @ clean (JString (visualObject data))) \<and>
   videoAPart data =
     (if clean (JString (sound data)) = [] then []
      else lit ''A-'' @ clean (JString (sound data))) \<and>
   videoTPart (data\<lparr>hookTheme := lit ''Fear'', hookDesc := lit ''Urgency'',
       visualTheme := [], visualObject := lit ''ProductShot'', sound := []\<rparr>)
     = lit ''T-Fear-Urgency'' \<and>
   videoVPart (data\<lparr>hookTheme := lit ''Fear'', hookDesc := lit ''Urgency'',
       visualTheme := [], visualObject := lit ''ProductShot'', sound := []\<rparr>)
     = lit ''ProductShot'' \<and>
   videoAPart (data\<lparr>hookTheme := lit ''Fear'', hookDesc := lit ''Urgency'',
       visualTheme := [], visualObject := lit ''ProductShot'', sound := []\<rparr>)
     = []"
proof -
  have t: "videoTPart d =
     (if clean (JString (hookTheme d)) = [] then clean (JString (hookDesc d))
      else if clean (JString (hookDesc d)) = []
        then lit ''T-'' @ clean (JString (hookTheme d))
      else lit ''T-'' @ clean (JString (hookTheme d)) @ lit ''-''
             @ clean (JString (hookDesc d)))" for d :: "'a FormData_scheme"
    unfolding videoTPart_def by (rule tagged_pair) simp
  have v: "videoVPart d =
     (if clean (JString (visualTheme d)) = [] then clean (JString (visualObject d))
      else if clean (JString (visualObject d)) = []
        then lit ''V-'' @ clean (JString (visualTheme d))
      else lit ''V-'' @ clean (JString (visualTheme d)) @ lit ''-''
             @ clean (JString (visualObject d)))" for d :: "'a FormData_scheme"
    unfolding videoVPart_def by (rule tagged_pair) simp
  have a: "videoAPart d =
     (if clean (JString (sound d)) = [] then []
      else lit ''A-'' @ clean (JString (sound d)))" for d :: "'a FormData_scheme"
    by (simp add: videoAPart_def del: clean.simps)
  have e: "clean (JString (lit ''Fear'')) = lit ''Fear''"
    "clean (JString (lit ''Urgency'')) = lit ''Urgency''"
    "clean (JString (lit ''ProductShot'')) = lit ''ProductShot''"
    by (simp_all add: lit_def trim_def isWhiteSpace_def CLEAN_RE_def)
  let ?d = "data\<lparr>hookTheme := lit ''Fear'', hookDesc := lit ''Urgency'',
       visualTheme := [], visualObject := lit ''ProductShot'', sound := []\<rparr>"
  have t': "videoTPart ?d = lit ''T-Fear-Urgency''"
    by (simp add: t e lit_Cons_nonempty clean_empty del: clean.simps) (simp add: lit_def)
  have v': "videoVPart ?d = lit ''ProductShot''"
    by (simp add: v e clean_empty del: clean.simps)
  have a': "videoAPart ?d = []"
    by (simp add: a clean_empty del: clean.simps)
  from t [of data] v [of data] a [of data] t' v' a' show ?thesis
    by (simp only: simp_thms)
qed

text \<open>
  The segments of a form with hookTheme \<open>" Fear "\<close> and a blank hookDesc, visualTheme
  \<open>"Bold"\<close> and visualObject \<open>"Cat"\<close>, and sound \<open>"Pop"\<close>.
\<close>

theorem video_segments_witness:
  "videoTPart (emptyForm\<lparr>hookTheme := lit '' Fear '', hookDesc := lit '' '',
       visualTheme := lit ''Bold'', visualObject := lit ''Cat'', sound := lit ''Pop''\<rparr>)
     = lit ''T-Fear'' \<and>
   videoVPart (emptyForm\<lparr>hookTheme := lit '' Fear '', hookDesc := lit '' '',
       visualTheme := lit ''Bold'', visualObject := lit ''Cat'', sound := lit ''Pop''\<rparr>)
     = lit ''V-Bold-Cat'' \<and>
   videoAPart (emptyForm\<lparr>hookTheme := lit '' Fear '', hookDesc := lit '' '',
       visualTheme := lit ''Bold'', visualObject := lit ''Cat'', sound := lit ''Pop''\<rparr>)
     = lit ''A-Pop''"
proof -
  let ?d = "emptyForm\<lparr>hookTheme := lit '' Fear '', hookDesc := lit '' '',
       visualTheme := lit ''Bold'', visualObject := lit ''Cat'', sound := lit ''Pop''\<rparr>"
  have e: "clean (JString (lit '' Fear '')) = lit ''Fear''"
    "clean (JString (lit '' '')) = []"
    "clean (JString (lit ''Bold'')) = lit ''Bold''"
    "clean (JString (lit ''Cat'')) = lit ''Cat''"
    "clean (JString (lit ''Pop'')) = lit ''Pop''"
    by (simp_all add: lit_def trim_def isWhiteSpace_def CLEAN_RE_def)
  have f: "hookTheme ?d = lit '' Fear ''" "hookDesc ?d = lit '' ''"
    "visualTheme ?d = lit ''Bold''" "visualObject ?d = lit ''Cat''" "sound ?d = lit ''Pop''"
    by simp_all
  note t = video_segments [where data = ?d]
  from t [THEN conjunct1]
  have 1: "videoTPart ?d = lit ''T-Fear''"
    by (simp only: f e lit_Cons_nonempty simp_thms if_True if_False) (simp add: lit_def)
  from t [THEN conjunct2, THEN conjunct1]
  have 2: "videoVPart ?d = lit ''V-Bold-Cat''"
    by (simp only: f e lit_Cons_nonempty simp_thms if_True if_False) (simp add: lit_def)
  from t [THEN conjunct2, THEN conjunct2, THEN conjunct1]
  have 3: "videoAPart ?d = lit ''A-Pop''"
    by (simp only: f e lit_Cons_nonempty simp_thms if_True if_False) (simp add: lit_def)
  from 1 2 3 show ?thesis by (simp only: simp_thms)
qed

section \<open>The default normalizer against its specification\<close>

lemma ascii_is_white: "isAsciiWhiteSpace c \<Longrightarrow> isWhiteSpace c"
  by (auto simp: isAsciiWhiteSpace_def isWhiteSpace_def)

lemma dropWhile_white_ascii:
  assumes "\<forall>c\<in>set t. isWhiteSpace c \<longrightarrow> isAsciiWhiteSpace c"
  shows "dropWhile isWhiteSpace t = dropWhile isAsciiWhiteSpace t"
proof (rule dropWhile_cong [OF refl])
  fix c
  assume "c \<in> set t"
  with assms show "isWhiteSpace c = isAsciiWhiteSpace c"
    using ascii_is_white by blast
qed

lemma clean_agrees_with_spec:
  assumes "\<forall>c\<in>set s. isWhiteSpace c \<longrightarrow> isAsciiWhiteSpace c \<or> CLEAN_RE c"
  shows "clean (JString s) = normalizeSpec (JString s)"
proof -
  let ?t = "filter (\<lambda>c. \<not> CLEAN_RE c) s"
  let ?u = "dropWhile isWhiteSpace ?t"
  have t: "\<forall>c\<in>set ?t. isWhiteSpace c \<longrightarrow> isAsciiWhiteSpace c"
    using assms by auto
  then have 1: "?u = dropWhile isAsciiWhiteSpace ?t"
    by (rule dropWhile_white_ascii)
  have "set (rev ?u) \<subseteq> set ?t"
    by (metis set_rev set_dropWhileD subsetI)
  with t have "\<forall>c\<in>set (rev ?u). isWhiteSpace c \<longrightarrow> isAsciiWhiteSpace c"
    by blast
  then have 2: "dropWhile isWhiteSpace (rev ?u) = dropWhile isAsciiWhiteSpace (rev ?u)"
    by (rule dropWhile_white_ascii)
  have f: "(\<lambda>c. c \<noteq> 0x00A0 \<and> c \<noteq> 0x200B \<and> c \<noteq> 0x200D \<and> c \<noteq> 0x2060)
      = (\<lambda>c. \<not> CLEAN_RE c)"
    by (simp add: CLEAN_RE_def)
  have "clean (JString s) = rev (dropWhile isWhiteSpace (rev ?u))"
    by (simp add: trim_def)
  also have "\<dots> = rev (dropWhile isAsciiWhiteSpace (rev (dropWhile isAsciiWhiteSpace ?t)))"
    using 1 2 by simp
  also have "\<dots> = normalizeSpec (JString s)"
    by (simp only: normalizeSpec_def f jsvalue.case)
  finally show ?thesis .
qed

text \<open>
  C4, as the claim states it, fails: \<open>trim\<close> strips every ECMAScript white-space unit,
  not the ASCII ones only. At the ideographic space U+3000 before \<open>"a"\<close> the code
  returns \<open>"a"\<close>, and the normalizer of the claim returns the input unchanged.
\<close>

theorem clean_ascii_trim_counterexample:
  "clean (JString [0x3000, 0x61]) = [0x61] \<and>
   normalizeSpec (JString [0x3000, 0x61]) = [0x3000, 0x61]"
  by (simp add: trim_def isWhiteSpace_def CLEAN_RE_def normalizeSpec_def isAsciiWhiteSpace_def)

text \<open>
  C4, amended. \<open>clean\<close> returns the empty string for \<open>undefined\<close>, \<open>null\<close>, a boolean
  and a number. For a string it removes every U+00A0, U+200B, U+200D and U+2060 and
  then takes white space, as ECMAScript's \<open>trim\<close> defines it, from both ends and
  changes nothing else: the string left after the removal is a run of white space, the
  result, and a run of white space, and the result is empty or has no white space at
  either end. On a string whose white-space units are all ASCII ones or among the four
  removed ones the result is that of the claim's normalizer.
\<close>

theorem clean_characterised:
  "clean JUndefined = [] \<and> clean JNull = [] \<and> clean (JBoolean b) = [] \<and>
   clean (JNumber n) = [] \<and>
   (\<exists>pre post.
      filter (\<lambda>c. c \<noteq> 0x00A0 \<and> c \<noteq> 0x200B \<and> c \<noteq> 0x200D \<and> c \<noteq> 0x2060) s
        = pre @ clean (JString s) @ post \<and>
      (\<forall>c\<in>set pre. isWhiteSpace c) \<and> (\<forall>c\<in>set post. isWhiteSpace c)) \<and>
   (clean (JString s) = [] \<or>
      \<not> isWhiteSpace (hd (clean (JString s))) \<and> \<not> isWhiteSpace (last (clean (JString s)))) \<and>
   ((\<forall>c\<in>set s. isWhiteSpace c \<longrightarrow> isAsciiWhiteSpace c \<or> CLEAN_RE c) \<longrightarrow>
      clean (JString s) = normalizeSpec (JString s))"
proof -
  let ?t = "filter (\<lambda>c. \<not> CLEAN_RE c) s"
  let ?pre = "takeWhile isWhiteSpace ?t"
  let ?post = "rev (takeWhile isWhiteSpace (rev (dropWhile isWhiteSpace ?t)))"
  have f: "(\<lambda>c. c \<noteq> 0x00A0 \<and> c \<noteq> 0x200B \<and> c \<noteq> 0x200D \<and> c \<noteq> 0x2060)
      = (\<lambda>c. \<not> CLEAN_RE c)"
    by (simp add: CLEAN_RE_def)
  have "?t = ?pre @ clean (JString s) @ ?post"
    using trim_decomp [of ?t] by simp
  moreover have "\<forall>c\<in>set ?pre. isWhiteSpace c"
    by (meson set_takeWhileD)
  moreover have "\<forall>c\<in>set ?post. isWhiteSpace c"
    by (metis set_rev set_takeWhileD)
  ultimately have d: "\<exists>pre post.
      filter (\<lambda>c. c \<noteq> 0x00A0 \<and> c \<noteq> 0x200B \<and> c \<noteq> 0x200D \<and> c \<noteq> 0x2060) s
        = pre @ clean (JString s) @ post \<and>
      (\<forall>c\<in>set pre. isWhiteSpace c) \<and> (\<forall>c\<in>set post. isWhiteSpace c)"
    unfolding f by blast
  have e: "clean (JString s) = [] \<or>
      \<not> isWhiteSpace (hd (clean (JString s))) \<and> \<not> isWhiteSpace (last (clean (JString s)))"
    using trimmed_clean [of "JString s"] by (simp only: trimmed_def)
  have n: "clean JUndefined = []" "clean JNull = []" "clean (JBoolean b) = []"
    "clean (JNumber n) = []"
    by simp_all
  from n d e clean_agrees_with_spec [of s] show ?thesis
    by blast
qed

text \<open>
  The amended statement at the string SP, \<open>a\<close>, NBSP, SP, \<open>b\<close>, TAB, whose white space
  is ASCII or removed: the result is \<open>"a b"\<close>, with the claim's normalizer too.
\<close>

theorem clean_characterised_witness:
  "clean (JString [0x20, 0x61, 0xA0, 0x20, 0x62, 0x09]) = [0x61, 0x20, 0x62] \<and>
   normalizeSpec (JString [0x20, 0x61, 0xA0, 0x20, 0x62, 0x09]) = [0x61, 0x20, 0x62]"
proof -
  have h: "\<forall>c\<in>set [0x20, 0x61, 0xA0, 0x20, 0x62, 0x09].
      isWhiteSpace c \<longrightarrow> isAsciiWhiteSpace c \<or> CLEAN_RE c"
    by (simp add: isWhiteSpace_def isAsciiWhiteSpace_def CLEAN_RE_def)
  have "clean (JString [0x20, 0x61, 0xA0, 0x20, 0x62, 0x09]) = [0x61, 0x20, 0x62]"
    by (simp add: trim_def isWhiteSpace_def CLEAN_RE_def)
  with clean_characterised [where s = "[0x20, 0x61, 0xA0, 0x20, 0x62, 0x09]"] h
  show ?thesis by (simp del: clean.simps)
qed

section \<open>The final pass over the ad-level string\<close>

lemma substitute_head:
  "\<exists>r. substituteCommaSpaceToDash (d # s) = d # r
     \<or> substituteCommaSpaceToDash (d # s) = 0x2D # r"
  by (cases s) auto

lemma substitute_no_comma_white:
  "isWhiteSpace w \<Longrightarrow> \<not> sublist [0x2C, w] (substituteCommaSpaceToDash s)"
proof (induction s rule: substituteCommaSpaceToDash.induct)
  case 1
  then show ?case by simp
next
  case (2 c)
  then show ?case by (simp add: sublist_Cons_right)
next
  case (3 c d s)
  show ?case
  proof (cases "c = 0x2C \<and> isWhiteSpace d")
    case True
    with 3 show ?thesis by (simp add: sublist_Cons_right)
  next
    case False
    obtain r where r: "substituteCommaSpaceToDash (d # s) = d # r
        \<or> substituteCommaSpaceToDash (d # s) = 0x2D # r"
      using substitute_head by blast
    have w: "w \<noteq> 0x2D" using \<open>isWhiteSpace w\<close> by (auto simp: isWhiteSpace_def)
    have "\<not> prefix [0x2C, w] (c # substituteCommaSpaceToDash (d # s))"
    proof
      assume p: "prefix [0x2C, w] (c # substituteCommaSpaceToDash (d # s))"
      then have c: "c = 0x2C" by simp
      from p r w have "d = w" by auto
      with c False \<open>isWhiteSpace w\<close> show False by simp
    qed
    moreover have "\<not> sublist [0x2C, w] (substituteCommaSpaceToDash (d # s))"
      using 3 False by simp
    moreover have "substituteCommaSpaceToDash (c # d # s)
        = c # substituteCommaSpaceToDash (d # s)"
      using False by auto
    ultimately show ?thesis
      by (simp only: sublist_Cons_right simp_thms)
  qed
qed

lemma substitute_append:
  "\<not> isWhiteSpace c \<Longrightarrow>
   substituteCommaSpaceToDash (xs @ c # rest)
     = substituteCommaSpaceToDash xs @ substituteCommaSpaceToDash (c # rest)"
proof (induction xs rule: substituteCommaSpaceToDash.induct)
  case 1
  then show ?case by simp
next
  case (2 a)
  then show ?case by simp
next
  case (3 a b s)
  then show ?case by (cases "a = 0x2C \<and> isWhiteSpace b") auto
qed

lemma substitute_comma_white:
  assumes "isWhiteSpace w"
  shows "substituteCommaSpaceToDash (xs @ 0x2C # w # ys)
     = substituteCommaSpaceToDash xs @ 0x2D # substituteCommaSpaceToDash ys"
proof -
  have "\<not> isWhiteSpace 0x2C" by (simp add: isWhiteSpace_def)
  then have "substituteCommaSpaceToDash (xs @ 0x2C # w # ys)
     = substituteCommaSpaceToDash xs @ substituteCommaSpaceToDash (0x2C # w # ys)"
    by (rule substitute_append)
  with assms show ?thesis by simp
qed

text \<open>Where no comma stands before a white-space unit other than U+0020, the pass
  of the code is the literal replacement of the specification.\<close>

lemma substitute_is_literal:
  assumes "\<And>xs w ys. s = xs @ 0x2C # w # ys \<Longrightarrow> isWhiteSpace w \<Longrightarrow> w = 0x20"
  shows "substituteCommaSpaceToDash s = replaceCommaSpaceSpec s"
  using assms
proof (induction s rule: substituteCommaSpaceToDash.induct)
  case 1
  then show ?case by simp
next
  case (2 c)
  then show ?case by simp
next
  case (3 c d s)
  have sp: "isWhiteSpace 0x20" by (simp add: isWhiteSpace_def)
  show ?case
  proof (cases "c = 0x2C \<and> isWhiteSpace d")
    case True
    with 3(3) [of "[]" d s] have d: "d = 0x20" by simp
    have "substituteCommaSpaceToDash s = replaceCommaSpaceSpec s"
    proof (rule 3(1) [OF True])
      fix xs w ys
      assume "s = xs @ 0x2C # w # ys" and "isWhiteSpace w"
      with 3(3) [of "c # d # xs" w ys] show "w = 0x20" by simp
    qed
    with True d show ?thesis by simp
  next
    case False
    have "substituteCommaSpaceToDash (d # s) = replaceCommaSpaceSpec (d # s)"
    proof (rule 3(2) [OF False])
      fix xs w ys
      assume "d # s = xs @ 0x2C # w # ys" and "isWhiteSpace w"
      with 3(3) [of "c # xs" w ys] show "w = 0x20" by simp
    qed
    moreover from False sp have "\<not> (c = 0x2C \<and> d = 0x20)" by auto
    ultimately show ?thesis using False by auto
  qed
qed

text \<open>The raw ad-level strings of a form that holds an ad-text code and nothing else.\<close>

lemma videoAdLevelRaw_adTextCode_only:
  "videoAdLevelRaw (emptyForm\<lparr>adTextCode := x\<rparr>) = clean (JString x)"
proof -
  let ?d = "emptyForm\<lparr>adTextCode := x\<rparr>"
  have p: "videoSPart ?d = []" "videoTPart ?d = []" "videoVPart ?d = []" "videoAPart ?d = []"
    "nconStr ?d = []" "projectCodeVariant ?d = []"
    by (simp_all add: videoSPart_def videoTPart_def videoVPart_def videoAPart_def nconStr_def
          projectCodeVariant_def textJoin_def emptyForm_def trim_def)
  have "videoAdLevelRaw ?d = textJoin (lit ''_'')
     [JString [], JString [], JString [], JString [], JString [], JString [], JString [],
      JString [], JString [], JString [], JString [], JString [], JString [], JString [],
      JString [], JString [], JString [], JString [], JString [], JString [], JString [],
      JString [], JString [], JString x]"
    unfolding videoAdLevelRaw_def p by (simp add: emptyForm_def)
  also have "\<dots> = join (lit ''_'') (filter (\<lambda>p. p \<noteq> []) (map clean [JString x]))"
    unfolding textJoin_def by (simp only: clean_empty survivors_blank)
  also have "\<dots> = clean (JString x)"
    by (simp del: clean.simps)
  finally show ?thesis .
qed

lemma staticAdLevelRaw_adTextCode_only:
  "staticAdLevelRaw (emptyForm\<lparr>adTextCode := x\<rparr>) = clean (JString x)"
proof -
  let ?d = "emptyForm\<lparr>adTextCode := x\<rparr>"
  have p: "staticSPart ?d = []" "staticTPart ?d = []" "staticVPart ?d = []"
    "staticAPart ?d = []" "nconStr ?d = []" "projectCodeVariant ?d = []"
    by (simp_all add: staticSPart_def staticTPart_def staticVPart_def staticAPart_def
          nconStr_def projectCodeVariant_def textJoin_def emptyForm_def trim_def)
  have "staticAdLevelRaw ?d = textJoin (lit ''_'')
     [JString [], JString [], JString [], JString [], JString [], JString [], JString [],
      JString [], JString [], JString [], JString [], JString [], JString [], JString [],
      JString [], JString [], JString [], JString [], JString [], JString [], JString [],
      JString [], JString [], JString x]"
    unfolding staticAdLevelRaw_def p by (simp add: emptyForm_def)
  also have "\<dots> = join (lit ''_'') (filter (\<lambda>p. p \<noteq> []) (map clean [JString x]))"
    unfolding textJoin_def by (simp only: clean_empty survivors_blank)
  also have "\<dots> = clean (JString x)"
    by (simp del: clean.simps)
  finally show ?thesis .
qed

text \<open>
  C6. For every record and in both modes the ad-level string never holds a comma
  followed by U+0020.
\<close>

theorem adLevel_no_comma_space:
  "\<not> sublist [0x2C, 0x20] (adLevel (generateVideoOutputs data)) \<and>
   \<not> sublist [0x2C, 0x20] (adLevel (generateStaticOutputs data))"
proof -
  have "isWhiteSpace 0x20" by (simp add: isWhiteSpace_def)
  then show ?thesis
    by (simp add: generateVideoOutputs_def generateStaticOutputs_def
          substitute_no_comma_white)
qed

text \<open>The ad-text code \<open>"Fear, Urgency"\<close> alone: the ad level is \<open>"Fear-Urgency"\<close>.\<close>

theorem adLevel_no_comma_space_witness:
  "adLevel (generateVideoOutputs (emptyForm\<lparr>adTextCode := lit ''Fear, Urgency''\<rparr>))
     = lit ''Fear-Urgency'' \<and>
   \<not> sublist [0x2C, 0x20] (lit ''Fear-Urgency'')"
proof -
  have "clean (JString (lit ''Fear, Urgency'')) = lit ''Fear, Urgency''"
    by (simp add: lit_def trim_def isWhiteSpace_def CLEAN_RE_def)
  then have "adLevel (generateVideoOutputs (emptyForm\<lparr>adTextCode := lit ''Fear, Urgency''\<rparr>))
     = lit ''Fear-Urgency''"
    by (simp add: generateVideoOutputs_def videoAdLevelRaw_adTextCode_only del: clean.simps)
       (simp add: lit_def isWhiteSpace_def)
  with adLevel_no_comma_space [of "emptyForm\<lparr>adTextCode := lit ''Fear, Urgency''\<rparr>"]
  show ?thesis by simp
qed

text \<open>
  C10. In the final ad-level pass of both generators a comma followed by any one
  white-space unit of the class \<open>\s\<close> (U+0020, but also TAB, LF and the others)
  becomes one dash and the white-space unit is gone: wherever the joined string
  holds such a pair, the ad level is the pass over what stands before it, a dash, and
  the pass over what stands behind it. With the ad-text code \<open>a\<close>, comma, TAB, \<open>b\<close>
  the ad level is \<open>"a-b"\<close>.
\<close>

theorem comma_any_whitespace_to_dash:
  "(isWhiteSpace w \<and> videoAdLevelRaw data = xs @ 0x2C # w # ys \<longrightarrow>
      adLevel (generateVideoOutputs data)
        = substituteCommaSpaceToDash xs @ 0x2D # substituteCommaSpaceToDash ys) \<and>
   (isWhiteSpace w \<and> staticAdLevelRaw data = xs @ 0x2C # w # ys \<longrightarrow>
      adLevel (generateStaticOutputs data)
        = substituteCommaSpaceToDash xs @ 0x2D # substituteCommaSpaceToDash ys) \<and>
   isWhiteSpace 0x20 \<and> isWhiteSpace 0x09 \<and> isWhiteSpace 0x0A \<and> isWhiteSpace 0x0D \<and>
   isWhiteSpace 0x3000 \<and>
   adLevel (generateVideoOutputs (emptyForm\<lparr>adTextCode := [0x61, 0x2C, 0x09, 0x62]\<rparr>))
     = lit ''a-b'' \<and>
   adLevel (generateStaticOutputs (emptyForm\<lparr>adTextCode := [0x61, 0x2C, 0x09, 0x62]\<rparr>))
     = lit ''a-b''"
proof -
  have c: "clean (JString [0x61, 0x2C, 0x09, 0x62]) = [0x61, 0x2C, 0x09, 0x62]"
    by (simp add: trim_def isWhiteSpace_def CLEAN_RE_def)
  have s: "substituteCommaSpaceToDash [0x61, 0x2C, 0x09, 0x62] = lit ''a-b''"
    by (simp add: lit_def isWhiteSpace_def)
  have 1: "adLevel (generateVideoOutputs (emptyForm\<lparr>adTextCode := [0x61, 0x2C, 0x09, 0x62]\<rparr>))
     = lit ''a-b''"
    by (simp only: generateVideoOutputs_def videoAdLevelRaw_adTextCode_only c s
          GeneratedOutputs.simps)
  have 2: "adLevel (generateStaticOutputs (emptyForm\<lparr>adTextCode := [0x61, 0x2C, 0x09, 0x62]\<rparr>))
     = lit ''a-b''"
    by (simp only: generateStaticOutputs_def staticAdLevelRaw_adTextCode_only c s
          GeneratedOutputs.simps)
  have w: "isWhiteSpace 0x20" "isWhiteSpace 0x09" "isWhiteSpace 0x0A" "isWhiteSpace 0x0D"
    "isWhiteSpace 0x3000"
    by (simp_all add: isWhiteSpace_def)
  have 3: "isWhiteSpace w \<and> videoAdLevelRaw data = xs @ 0x2C # w # ys \<longrightarrow>
      adLevel (generateVideoOutputs data)
        = substituteCommaSpaceToDash xs @ 0x2D # substituteCommaSpaceToDash ys"
    by (simp add: generateVideoOutputs_def substitute_comma_white)
  have 4: "isWhiteSpace w \<and> staticAdLevelRaw data = xs @ 0x2C # w # ys \<longrightarrow>
      adLevel (generateStaticOutputs data)
        = substituteCommaSpaceToDash xs @ 0x2D # substituteCommaSpaceToDash ys"
    by (simp add: generateStaticOutputs_def substitute_comma_white)
  from 1 2 3 4 w show ?thesis by (simp only: simp_thms)
qed

text \<open>The ad-text code \<open>a\<close>, comma, LF, \<open>b\<close> in a static form: the ad level is \<open>"a-b"\<close>.\<close>

theorem comma_any_whitespace_to_dash_witness:
  "isWhiteSpace 0x0A \<and>
   staticAdLevelRaw (emptyForm\<lparr>adTextCode := [0x61, 0x2C, 0x0A, 0x62]\<rparr>)
     = [0x61] @ 0x2C # 0x0A # [0x62] \<and>
   adLevel (generateStaticOutputs (emptyForm\<lparr>adTextCode := [0x61, 0x2C, 0x0A, 0x62]\<rparr>))
     = [0x61, 0x2D, 0x62]"
proof -
  have w: "isWhiteSpace 0x0A" by (simp add: isWhiteSpace_def)
  have r: "staticAdLevelRaw (emptyForm\<lparr>adTextCode := [0x61, 0x2C, 0x0A, 0x62]\<rparr>)
     = [0x61] @ 0x2C # 0x0A # [0x62]"
    by (simp add: staticAdLevelRaw_adTextCode_only trim_def isWhiteSpace_def CLEAN_RE_def)
  from comma_any_whitespace_to_dash [where w = "0x0A" and xs = "[0x61]" and ys = "[0x62]"
      and data = "emptyForm\<lparr>adTextCode := [0x61, 0x2C, 0x0A, 0x62]\<rparr>",
      THEN conjunct2, THEN conjunct1] w r
  have "adLevel (generateStaticOutputs (emptyForm\<lparr>adTextCode := [0x61, 0x2C, 0x0A, 0x62]\<rparr>))
     = [0x61, 0x2D, 0x62]"
    by simp
  with w r show ?thesis by (simp only: simp_thms)
qed

text \<open>
  C1 at the ad-text code \<open>a\<close>, comma, U+3000 (ideographic space), \<open>b\<close>: the joined
  string keeps the four units, it holds no comma followed by U+0020, so the literal
  replacement of the claim leaves it unchanged; the final pass of both generators
  returns \<open>"a-b"\<close>.
\<close>

theorem final_pass_beyond_comma_space:
  "videoAdLevelRaw (emptyForm\<lparr>adTextCode := [0x61, 0x2C, 0x3000, 0x62]\<rparr>)
     = [0x61, 0x2C, 0x3000, 0x62] \<and>
   staticAdLevelRaw (emptyForm\<lparr>adTextCode := [0x61, 0x2C, 0x3000, 0x62]\<rparr>)
     = [0x61, 0x2C, 0x3000, 0x62] \<and>
   replaceCommaSpaceSpec [0x61, 0x2C, 0x3000, 0x62] = [0x61, 0x2C, 0x3000, 0x62] \<and>
   adLevel (generateVideoOutputs (emptyForm\<lparr>adTextCode := [0x61, 0x2C, 0x3000, 0x62]\<rparr>))
     = [0x61, 0x2D, 0x62] \<and>
   adLevel (generateStaticOutputs (emptyForm\<lparr>adTextCode := [0x61, 0x2C, 0x3000, 0x62]\<rparr>))
     = [0x61, 0x2D, 0x62]"
proof -
  have c: "clean (JString [0x61, 0x2C, 0x3000, 0x62]) = [0x61, 0x2C, 0x3000, 0x62]"
    by (simp add: trim_def isWhiteSpace_def CLEAN_RE_def)
  have s: "substituteCommaSpaceToDash [0x61, 0x2C, 0x3000, 0x62] = [0x61, 0x2D, 0x62]"
    by (simp add: isWhiteSpace_def)
  have l: "replaceCommaSpaceSpec [0x61, 0x2C, 0x3000, 0x62] = [0x61, 0x2C, 0x3000, 0x62]"
    by simp
  show ?thesis
    by (simp only: generateVideoOutputs_def generateStaticOutputs_def
          videoAdLevelRaw_adTextCode_only staticAdLevelRaw_adTextCode_only c s l
          GeneratedOutputs.simps simp_thms)
qed

end
